theory Spec2Isabelle
  imports Complex_Main "HOL-Library.Sublist" "HOL-Library.Multiset"
begin

section \<open>The retriever agent of \<^verbatim>\<open>retriver_demo_low/retriver_demo.py\<close>\<close>

text \<open>
  A shallow embedding of \<^verbatim>\<open>RetrieverTools\<close> and \<^verbatim>\<open>RetrieverAgent\<close>: the rule-based
  strategy selector, the three backend dispatchers, the post-processor and the \<^verbatim>\<open>search\<close>
  orchestrator with its event handlers.
\<close>

subsection \<open>Python values\<close>

text \<open>
  A Python \<^verbatim>\<open>str\<close> is a sequence of Unicode code points, so a string is a list of code
  points (the source's literals are partly Chinese, beyond the 8-bit \<^typ>\<open>char\<close>).
  \<^verbatim>\<open>k in q\<close> on strings is \<^term>\<open>sublist k q\<close>.
\<close>

type_synonym ustr = "nat list"

definition ascii :: "string \<Rightarrow> ustr" where
  "ascii s = map of_char s"

text \<open>
  The values a \<^verbatim>\<open>Dict[str, Any]\<close> entry takes in this program. A float is read as the
  real number it denotes: comparisons of finite floats (and of floats with ints) are the
  comparisons of those numbers. NaN is outside the model.
\<close>

datatype pyval = PyNone | PyInt int | PyFloat real | PyStr ustr

text \<open>
  \<^verbatim>\<open>str.lower()\<close>, character by character. The model lower-cases the ASCII letters and
  leaves every other code point alone. Python's full Unicode mapping differs from it only
  on code points that the five recency keywords below do not contain, before or after
  lower-casing (the only non-ASCII code points whose lower case contains an ASCII letter are
  U+0130 and U+212A, giving \<^verbatim>\<open>i\<close> and \<^verbatim>\<open>k\<close>), so \<^verbatim>\<open>keyword in query.lower()\<close> is the same
  in both.
\<close>

definition lower_cp :: "nat \<Rightarrow> nat" where
  "lower_cp c = (if 65 \<le> c \<and> c \<le> 90 then c + 32 else c)"

definition lower :: "ustr \<Rightarrow> ustr" where
  "lower q = map lower_cp q"

text \<open>The code points for which \<^verbatim>\<open>str.isspace()\<close> holds: the separators of \<^verbatim>\<open>str.split()\<close>.\<close>

definition isspace :: "nat \<Rightarrow> bool" where
  "isspace c \<longleftrightarrow>
     (9 \<le> c \<and> c \<le> 13) \<or> (28 \<le> c \<and> c \<le> 32) \<or> c = 133 \<or> c = 160 \<or> c = 5760 \<or>
     (8192 \<le> c \<and> c \<le> 8202) \<or> c = 8232 \<or> c = 8233 \<or> c = 8239 \<or> c = 8287 \<or> c = 12288"

text \<open>
  \<^verbatim>\<open>query.split()\<close> with no argument: the maximal runs of non-whitespace code points.
  The first argument is the token being read.
\<close>

fun split_from :: "ustr \<Rightarrow> ustr \<Rightarrow> ustr list" where
  "split_from cur [] = (if cur = [] then [] else [cur])"
| "split_from cur (c # cs) =
     (if isspace c then (if cur = [] then split_from [] cs else cur # split_from [] cs)
      else split_from (cur @ [c]) cs)"

definition split :: "ustr \<Rightarrow> ustr list" where
  "split q = split_from [] q"

subsection \<open>Data model\<close>

datatype SearchStrategy = VECTOR | KEYWORD | HYBRID | WEB | CRM

text \<open>\<^verbatim>\<open>SearchStrategy.value\<close>, and the enum's constructor from a value (None: ValueError).\<close>

fun strategy_value :: "SearchStrategy \<Rightarrow> ustr" where
  "strategy_value VECTOR = ascii ''vector''"
| "strategy_value KEYWORD = ascii ''keyword''"
| "strategy_value HYBRID = ascii ''hybrid''"
| "strategy_value WEB = ascii ''web''"
| "strategy_value CRM = ascii ''crm''"

definition strategy_of_value :: "ustr \<Rightarrow> SearchStrategy option" where
  "strategy_of_value v = find (\<lambda>s. strategy_value s = v) [VECTOR, KEYWORD, HYBRID, WEB, CRM]"

text \<open>The \<^verbatim>\<open>filters\<close> mapping: the keys the program reads; None is an absent key.\<close>

record filters =
  ws_id :: "pyval option"
  time_range :: "pyval option"
  f_doc_type :: "pyval option"

definition no_filters :: filters where
  "no_filters = \<lparr>ws_id = None, time_range = None, f_doc_type = None\<rparr>"

text \<open>The \<^verbatim>\<open>context\<close> mapping of \<^verbatim>\<open>search\<close>: the keys the program reads; None is an absent key.\<close>

record search_context =
  doc_type :: "pyval option"
  caller_agent :: "pyval option"
  c_limit :: "pyval option"
  c_score_threshold :: "pyval option"
  c_filters :: "filters option"

definition empty_context :: search_context where
  "empty_context = \<lparr>doc_type = None, caller_agent = None, c_limit = None,
     c_score_threshold = None, c_filters = None\<rparr>"

text \<open>The \<^verbatim>\<open>parameters\<close> mapping of a strategy; None is an absent key.\<close>

record parameters =
  limit :: "pyval option"
  score_threshold :: "pyval option"
  search_fields :: "ustr list option"
  vector_weight :: "real option"
  keyword_weight :: "real option"

text \<open>The mapping \<^verbatim>\<open>_get_fallback_strategy\<close> returns.\<close>

record fallback =
  fb_strategy_type :: ustr
  fb_data_source :: ustr

record RetrievalStrategy =
  strategy_type :: SearchStrategy
  data_source :: ustr
  query :: ustr
  original_query :: ustr
  rs_filters :: filters
  rs_parameters :: parameters
  fallback_strategy :: "fallback option"

subsection \<open>\<^verbatim>\<open>RetrieverTools\<close>: strategy selection\<close>

definition rewrite_suffix :: ustr where
  \<comment> \<open>a space, then the nine code points of the elaboration suffix\<close>
  "rewrite_suffix = [32, 30456, 20851, 20449, 24687, 21644, 35814, 32454, 20869, 23481]"

definition rewrite_query_if_needed :: "ustr \<Rightarrow> search_context \<Rightarrow> ustr" where
  "rewrite_query_if_needed q ctx = (if length (split q) < 3 then q @ rewrite_suffix else q)"

definition recency_keywords :: "ustr list" where
  \<comment> \<open>U+6700 U+65B0, U+65B0 U+95FB, U+5B9E U+65F6, \<^verbatim>\<open>current\<close>, \<^verbatim>\<open>latest\<close>\<close>
  "recency_keywords =
     [[26368, 26032], [26032, 38395], [23454, 26102], ascii ''current'', ascii ''latest'']"

definition document_marker :: ustr where
  \<comment> \<open>U+6587 U+6863\<close>
  "document_marker = [25991, 26723]"

definition select_search_strategy :: "ustr \<Rightarrow> search_context \<Rightarrow> SearchStrategy" where
  "select_search_strategy q ctx =
     (let dt = (case doc_type ctx of None \<Rightarrow> PyStr (ascii ''auto'') | Some v \<Rightarrow> v) in
      if list_ex (\<lambda>keyword. sublist keyword (lower q)) recency_keywords then WEB
      else if dt = PyStr (ascii ''pdf'') \<or> sublist document_marker q then VECTOR
      else if sublist (ascii [CHR 0x22]) q \<or> sublist (ascii ''`'') q then KEYWORD
      else HYBRID)"

definition get_data_source_for_strategy :: "SearchStrategy \<Rightarrow> ustr" where
  "get_data_source_for_strategy s =
     (case map_of [(VECTOR, ascii ''zilliz_cloud''), (KEYWORD, ascii ''opensearch''),
                   (HYBRID, ascii ''zilliz_cloud''), (WEB, ascii ''duckduckgo''),
                   (CRM, ascii ''crm_api'')] s of
        Some d \<Rightarrow> d | None \<Rightarrow> ascii ''unknown'')"

definition build_search_parameters :: "ustr \<Rightarrow> search_context \<Rightarrow> SearchStrategy \<Rightarrow> parameters" where
  "build_search_parameters q ctx s =
     (let params = \<lparr>limit = Some (case c_limit ctx of None \<Rightarrow> PyInt 10 | Some v \<Rightarrow> v),
                     score_threshold =
                       Some (case c_score_threshold ctx of None \<Rightarrow> PyFloat 0.5 | Some v \<Rightarrow> v),
                     search_fields = None, vector_weight = None, keyword_weight = None\<rparr> in
      if s = VECTOR then params\<lparr>search_fields := Some [ascii ''content'', ascii ''summary'']\<rparr>
      else if s = KEYWORD then
        params\<lparr>search_fields := Some [ascii ''title'', ascii ''content'', ascii ''keywords'']\<rparr>
      else if s = HYBRID then params\<lparr>vector_weight := Some 0.7, keyword_weight := Some 0.3\<rparr>
      else params)"

definition get_fallback_strategy :: "SearchStrategy \<Rightarrow> fallback option" where
  "get_fallback_strategy primary =
     (case map_of [(VECTOR, KEYWORD), (KEYWORD, WEB), (HYBRID, KEYWORD)] primary of
        Some fb \<Rightarrow> Some \<lparr>fb_strategy_type = strategy_value fb,
                         fb_data_source = get_data_source_for_strategy fb\<rparr>
      | None \<Rightarrow> None)"

text \<open>
  \<^verbatim>\<open>think_retrieval_strategy\<close> returns a mapping that \<^verbatim>\<open>search\<close> turns into a
  \<^verbatim>\<open>RetrievalStrategy\<close> at once (\<^verbatim>\<open>SearchStrategy(value)\<close> of a \<^verbatim>\<open>.value\<close> is the member
  itself); the model builds the record directly.
\<close>

definition think_retrieval_strategy :: "ustr \<Rightarrow> search_context \<Rightarrow> RetrievalStrategy" where
  "think_retrieval_strategy q ctx =
     (let rewritten_query = rewrite_query_if_needed q ctx;
          strategy = select_search_strategy rewritten_query ctx;
          params = build_search_parameters rewritten_query ctx strategy in
      \<lparr>strategy_type = strategy,
       data_source = get_data_source_for_strategy strategy,
       query = rewritten_query,
       original_query = q,
       rs_filters = (case c_filters ctx of None \<Rightarrow> no_filters | Some f \<Rightarrow> f),
       rs_parameters = params,
       fallback_strategy = get_fallback_strategy strategy\<rparr>)"

subsection \<open>Exceptions, results and backends\<close>

text \<open>
  The exceptions (subclasses of \<^verbatim>\<open>Exception\<close>) that the modelled code can meet. \<^verbatim>\<open>str(e)\<close>
  is kept as the exception itself. \<^verbatim>\<open>Raised m\<close> is any exception of a backend or of a
  handler, with its message.
\<close>

datatype exn =
    CompareTypeError pyval  \<comment> \<open>\<^verbatim>\<open>>=\<close> between a number and this value\<close>
  | SliceTypeError pyval  \<comment> \<open>slice indices must be integers or None\<close>
  | KeyError ustr
  | ValueError ustr
  | Raised ustr

text \<open>
  A search result is a mapping; \<^verbatim>\<open>content\<close> and \<^verbatim>\<open>score\<close> are read with \<^verbatim>\<open>.get\<close> and a
  default, so they may be absent (None).
\<close>

record result =
  content :: "ustr option"
  score :: "real option"
  metadata :: "(ustr \<times> pyval) list"
  source :: ustr
  chunk_id :: pyval

text \<open>The vector store: the keyword arguments of \<^verbatim>\<open>zilliz_client.search\<close> and a raw result.\<close>

datatype zilliz_condition = WsIdEquals pyval | CreatedInLast7Days

record zilliz_request =
  z_query :: ustr
  z_limit :: pyval
  z_filter :: "zilliz_condition list"  \<comment> \<open>the conjuncts joined by \<^verbatim>\<open>AND\<close>\<close>

record zilliz_hit =
  z_content :: "ustr option"
  z_score :: "real option"
  z_metadata :: "(ustr \<times> pyval) list option"
  z_id :: "pyval option"

text \<open>The keyword index: the request body and a hit of the response.\<close>

datatype os_clause = Term ustr pyval

record os_request =
  os_query :: ustr
  os_fields :: "ustr list"
  os_filter :: "os_clause list"
  os_size :: pyval

record os_source =
  s_content :: "ustr option"
  s_other :: "(ustr \<times> pyval) list"

record os_hit =
  h_source :: "os_source option"
  h_score :: "real option"
  h_id :: "pyval option"

text \<open>Web search: the arguments of \<^verbatim>\<open>duckduckgo_search\<close> and what it returns.\<close>

record web_request =
  w_query :: ustr
  w_max_results :: pyval

record web_hit =
  snippet :: "ustr option"
  body :: "ustr option"
  title :: "ustr option"
  link :: "ustr option"
  href :: "ustr option"

datatype web_item = ItemDict web_hit | ItemStr ustr | ItemOther

datatype web_reply = ReplyList "web_item list" | ReplyOther

text \<open>
  \<^verbatim>\<open>RetrieverTools\<close>: a client is None when it was never configured. A backend call
  either raises (\<^term>\<open>Inl\<close>) or returns. For the keyword index the returned value is
  \<^verbatim>\<open>response["hits"]["hits"]\<close>, None when the response has no such entry.
\<close>

record tools =
  zilliz_client :: "(zilliz_request \<Rightarrow> exn + zilliz_hit list) option"
  opensearch_client :: "(os_request \<Rightarrow> exn + os_hit list option) option"
  web_search_tools :: "web_request \<Rightarrow> exn + web_reply"

subsection \<open>Events and observable effects\<close>

text \<open>
  The event mapping of \<^verbatim>\<open>_emit_event\<close>: the constructor is the \<^verbatim>\<open>event\<close> tag and its
  arguments are the \<^verbatim>\<open>data\<close> mapping. Wall-clock fields (\<^verbatim>\<open>timestamp\<close>, \<^verbatim>\<open>duration\<close>) are
  left out.
\<close>

datatype event_data =
    RetrievalStarted ustr search_context
  | RetrievalStrategyCompleted ustr ustr ustr  \<comment> \<open>strategy, data_source, rewritten_query\<close>
  | FallbackStrategyActivated fallback
  | ToolCallCompleted ustr nat  \<comment> \<open>tool, results_count\<close>
  | RetrievalCompleted nat ustr  \<comment> \<open>results_count, strategy\<close>
  | RetrievalError exn ustr  \<comment> \<open>error, query\<close>

record event =
  agent_name :: ustr
  data :: event_data

datatype log_entry =
    ClientNotInitialised ustr
  | SearchFailed ustr exn
  | ExecuteFailed exn
  | FallbackActivated fallback
  | HandlerFailed exn
  | RetrievalFailed exn

text \<open>
  What a call does besides returning, in order: a handler awaited on an event, a logger
  call, a backend call with its request, and the call of \<^verbatim>\<open>_execute_search_strategy\<close>
  itself with its argument.
\<close>

datatype effect =
    Notified nat event
  | Logged log_entry
  | ZillizCalled zilliz_request
  | OpenSearchCalled os_request
  | WebCalled web_request
  | Dispatched RetrievalStrategy

subsection \<open>\<^verbatim>\<open>RetrieverTools\<close>: the dispatchers\<close>

definition build_zilliz_filter :: "filters \<Rightarrow> zilliz_condition list" where
  "build_zilliz_filter f =
     (case ws_id f of Some v \<Rightarrow> [WsIdEquals v] | None \<Rightarrow> []) @
     (case time_range f of
        Some v \<Rightarrow> if v = PyStr (ascii ''recent'') then [CreatedInLast7Days] else []
      | None \<Rightarrow> [])"

definition format_zilliz :: "zilliz_hit \<Rightarrow> result" where
  "format_zilliz r =
     \<lparr>content = Some (case z_content r of None \<Rightarrow> [] | Some c \<Rightarrow> c),
      score = Some (case z_score r of None \<Rightarrow> 0 | Some s \<Rightarrow> s),
      metadata = (case z_metadata r of None \<Rightarrow> [] | Some m \<Rightarrow> m),
      source = ascii ''zilliz_cloud'',
      chunk_id = (case z_id r of None \<Rightarrow> PyNone | Some i \<Rightarrow> i)\<rparr>"

definition zilliz_search ::
  "tools \<Rightarrow> ustr \<Rightarrow> filters \<Rightarrow> parameters \<Rightarrow> result list \<times> effect list" where
  "zilliz_search t q f p =
     (case zilliz_client t of
        None \<Rightarrow> ([], [Logged (ClientNotInitialised (ascii ''Zilliz''))])
      | Some client \<Rightarrow>
          (let search_params =
                 \<lparr>z_query = q,
                  z_limit = (case limit p of None \<Rightarrow> PyInt 10 | Some v \<Rightarrow> v),
                  z_filter = build_zilliz_filter f\<rparr> in
           case client search_params of
             Inl e \<Rightarrow> ([], [ZillizCalled search_params, Logged (SearchFailed (ascii ''Zilliz'') e)])
           | Inr rs \<Rightarrow> (map format_zilliz rs, [ZillizCalled search_params])))"

definition build_opensearch_filter :: "filters \<Rightarrow> os_clause list" where
  "build_opensearch_filter f =
     (case ws_id f of Some v \<Rightarrow> [Term (ascii ''ws_id'') v] | None \<Rightarrow> []) @
     (case f_doc_type f of Some v \<Rightarrow> [Term (ascii ''doc_type'') v] | None \<Rightarrow> [])"

definition source_mapping :: "os_source \<Rightarrow> (ustr \<times> pyval) list" where
  "source_mapping s =
     (case s_content s of None \<Rightarrow> [] | Some c \<Rightarrow> [(ascii ''content'', PyStr c)]) @ s_other s"

text \<open>A hit without \<^verbatim>\<open>_source\<close>, \<^verbatim>\<open>_score\<close> or \<^verbatim>\<open>_id\<close> raises KeyError at the subscript.\<close>

definition format_opensearch :: "os_hit \<Rightarrow> exn + result" where
  "format_opensearch h =
     (case h_source h of
        None \<Rightarrow> Inl (KeyError (ascii ''_source''))
      | Some s \<Rightarrow>
          (case h_score h of
             None \<Rightarrow> Inl (KeyError (ascii ''_score''))
           | Some sc \<Rightarrow>
               (case h_id h of
                  None \<Rightarrow> Inl (KeyError (ascii ''_id''))
                | Some i \<Rightarrow>
                    Inr \<lparr>content = Some (case s_content s of None \<Rightarrow> [] | Some c \<Rightarrow> c),
                         score = Some sc,
                         metadata = source_mapping s,
                         source = ascii ''opensearch'',
                         chunk_id = i\<rparr>)))"

text \<open>The formatting loop: the first hit that raises ends it.\<close>

fun format_hits :: "os_hit list \<Rightarrow> exn + result list" where
  "format_hits [] = Inr []"
| "format_hits (h # hs) =
     (case format_opensearch h of
        Inl e \<Rightarrow> Inl e
      | Inr r \<Rightarrow> (case format_hits hs of Inl e \<Rightarrow> Inl e | Inr rs \<Rightarrow> Inr (r # rs)))"

definition opensearch_search ::
  "tools \<Rightarrow> ustr \<Rightarrow> filters \<Rightarrow> parameters \<Rightarrow> result list \<times> effect list" where
  "opensearch_search t q f p =
     (case opensearch_client t of
        None \<Rightarrow> ([], [Logged (ClientNotInitialised (ascii ''OpenSearch''))])
      | Some client \<Rightarrow>
          (let request =
                 \<lparr>os_query = q,
                  os_fields = (case search_fields p of None \<Rightarrow> [ascii ''*''] | Some fs \<Rightarrow> fs),
                  os_filter = build_opensearch_filter f,
                  os_size = (case limit p of None \<Rightarrow> PyInt 10 | Some v \<Rightarrow> v)\<rparr>;
               failed = (\<lambda>e. ([], [OpenSearchCalled request,
                                     Logged (SearchFailed (ascii ''OpenSearch'') e)])) in
           case client request of
             Inl e \<Rightarrow> failed e
           | Inr None \<Rightarrow> failed (KeyError (ascii ''hits''))
           | Inr (Some hits) \<Rightarrow>
               (case format_hits hits of
                  Inl e \<Rightarrow> failed e
                | Inr rs \<Rightarrow> (rs, [OpenSearchCalled request]))))"

text \<open>
  The loop over \<^verbatim>\<open>enumerate(results)\<close>: an item that is neither a mapping nor a string
  is skipped but still counted. The score \<^verbatim>\<open>1.0 - (idx * 0.1)\<close> is read in exact
  arithmetic.
\<close>

fun format_web :: "nat \<Rightarrow> web_item list \<Rightarrow> result list" where
  "format_web idx [] = []"
| "format_web idx (ItemDict d # rest) =
     \<lparr>content = Some (case snippet d of Some s \<Rightarrow> s
                      | None \<Rightarrow> (case body d of Some b \<Rightarrow> b | None \<Rightarrow> [])),
      score = Some (1 - real idx * (1 / 10)),
      metadata =
        [(ascii ''title'', PyStr (case title d of Some s \<Rightarrow> s | None \<Rightarrow> [])),
         (ascii ''link'', PyStr (case link d of Some s \<Rightarrow> s
                                | None \<Rightarrow> (case href d of Some s \<Rightarrow> s | None \<Rightarrow> [])))],
      source = ascii ''web'',
      chunk_id = PyNone\<rparr> # format_web (Suc idx) rest"
| "format_web idx (ItemStr s # rest) =
     \<lparr>content = Some s, score = Some (1 - real idx * (1 / 10)), metadata = [],
      source = ascii ''web'', chunk_id = PyNone\<rparr> # format_web (Suc idx) rest"
| "format_web idx (ItemOther # rest) = format_web (Suc idx) rest"

definition web_search :: "tools \<Rightarrow> ustr \<Rightarrow> parameters \<Rightarrow> result list \<times> effect list" where
  "web_search t q p =
     (let request = \<lparr>w_query = q,
                      w_max_results = (case limit p of None \<Rightarrow> PyInt 5 | Some v \<Rightarrow> v)\<rparr> in
      case web_search_tools t request of
        Inl e \<Rightarrow> ([], [WebCalled request, Logged (SearchFailed (ascii ''web'') e)])
      | Inr (ReplyList items) \<Rightarrow> (format_web 0 items, [WebCalled request])
      | Inr ReplyOther \<Rightarrow> ([], [WebCalled request]))"

subsection \<open>\<^verbatim>\<open>RetrieverAgent\<close>\<close>

text \<open>
  Handlers are identified by numbers; \<^verbatim>\<open>event_handlers\<close> is the list in registration
  order. What awaiting a handler on an event does is given by a function \<open>hb\<close>: None when
  the handler returns, the exception when it raises.
\<close>

record agent =
  name :: ustr
  enable_events :: bool
  agent_tools :: tools
  event_handlers :: "nat list"


definition remove_event_handler :: "nat \<Rightarrow> agent \<Rightarrow> agent" where
  "remove_event_handler h ag =
     (if h \<in> set (event_handlers ag) then ag\<lparr>event_handlers := remove1 h (event_handlers ag)\<rparr>
      else ag)"

text \<open>The loop of \<^verbatim>\<open>_emit_event\<close> over the handlers.\<close>

fun notify :: "(nat \<Rightarrow> event \<Rightarrow> exn option) \<Rightarrow> event \<Rightarrow> nat list \<Rightarrow> effect list" where
  "notify hb ev [] = []"
| "notify hb ev (handler # rest) =
     (case hb handler ev of
        None \<Rightarrow> Notified handler ev # notify hb ev rest
      | Some e \<Rightarrow> Notified handler ev # Logged (HandlerFailed e) # notify hb ev rest)"

definition emit_event ::
  "(nat \<Rightarrow> event \<Rightarrow> exn option) \<Rightarrow> agent \<Rightarrow> event_data \<Rightarrow> effect list" where
  "emit_event hb ag d = notify hb \<lparr>agent_name = name ag, data = d\<rparr> (event_handlers ag)"

text \<open>The guarded call \<^verbatim>\<open>if self.enable_events: await self._emit_event(...)\<close>.\<close>

definition emit_if_enabled ::
  "(nat \<Rightarrow> event \<Rightarrow> exn option) \<Rightarrow> agent \<Rightarrow> event_data \<Rightarrow> effect list" where
  "emit_if_enabled hb ag d = (if enable_events ag then emit_event hb ag d else [])"

text \<open>
  \<^verbatim>\<open>_execute_search_strategy\<close>. Nothing inside its \<^verbatim>\<open>try\<close> raises (the dispatchers and
  \<^verbatim>\<open>_emit_event\<close> catch their own exceptions), so its \<^verbatim>\<open>except\<close> branch has no case here.
\<close>

definition execute_search_strategy ::
  "(nat \<Rightarrow> event \<Rightarrow> exn option) \<Rightarrow> agent \<Rightarrow> RetrievalStrategy \<Rightarrow> result list \<times> effect list"
  where
  "execute_search_strategy hb ag st =
     (let (rs, t) =
            (if data_source st = ascii ''zilliz_cloud'' then
               zilliz_search (agent_tools ag) (query st) (rs_filters st) (rs_parameters st)
             else if data_source st = ascii ''opensearch'' then
               opensearch_search (agent_tools ag) (query st) (rs_filters st) (rs_parameters st)
             else if data_source st = ascii ''duckduckgo'' then
               web_search (agent_tools ag) (query st) (rs_parameters st)
             else ([], [])) in
      (rs, Dispatched st # t @ emit_if_enabled hb ag (ToolCallCompleted (data_source st) (length rs))))"

subsection \<open>Post-processing\<close>

definition dedup_key :: "result \<Rightarrow> ustr" where
  "dedup_key r = take 100 (case content r of None \<Rightarrow> [] | Some c \<Rightarrow> c)"

text \<open>The deduplication loop; the first argument is the set \<^verbatim>\<open>seen\<close>.\<close>

fun unique_from :: "ustr set \<Rightarrow> result list \<Rightarrow> result list" where
  "unique_from seen [] = []"
| "unique_from seen (r # rs) =
     (let key = dedup_key r in
      if key \<notin> seen then r # unique_from (insert key seen) rs else unique_from seen rs)"

definition get_score :: "result \<Rightarrow> real" where
  "get_score r = (case score r of None \<Rightarrow> 0 | Some s \<Rightarrow> s)"

text \<open>
  \<^verbatim>\<open>list.sort(key=..., reverse=True)\<close> is stable: results of equal score keep their order.
  That is the stable ascending sort on the negated score.
\<close>

definition sort_by_score :: "result list \<Rightarrow> result list" where
  "sort_by_score rs = sort_key (\<lambda>x. - get_score x) rs"

text \<open>
  \<^verbatim>\<open>r.get("score", 0) >= threshold\<close>: a TypeError unless the threshold is a number. The
  comprehension evaluates it once per element, so not at all on an empty list.
\<close>

fun meets :: "pyval \<Rightarrow> real \<Rightarrow> bool" where
  "meets (PyInt i) s = (of_int i \<le> s)"
| "meets (PyFloat t) s = (t \<le> s)"
| "meets v s = False"

fun is_number :: "pyval \<Rightarrow> bool" where
  "is_number (PyInt i) = True"
| "is_number (PyFloat t) = True"
| "is_number v = False"

definition filter_threshold :: "pyval \<Rightarrow> result list \<Rightarrow> exn + result list" where
  "filter_threshold th rs =
     (if rs = [] \<or> is_number th then Inr (filter (\<lambda>r. meets th (get_score r)) rs)
      else Inl (CompareTypeError th))"

text \<open>
  \<^verbatim>\<open>xs[:limit]\<close>: None takes everything, a negative integer counts from the end, anything
  but an integer or None is a TypeError.
\<close>

fun slice_to :: "pyval \<Rightarrow> 'a list \<Rightarrow> exn + 'a list" where
  "slice_to PyNone xs = Inr xs"
| "slice_to (PyInt n) xs =
     Inr (if 0 \<le> n then take (nat n) xs else take (length xs - nat (- n)) xs)"
| "slice_to v xs = Inl (SliceTypeError v)"

definition threshold_of :: "RetrievalStrategy \<Rightarrow> pyval" where
  "threshold_of st =
     (case score_threshold (rs_parameters st) of None \<Rightarrow> PyFloat 0.5 | Some v \<Rightarrow> v)"

definition limit_of :: "RetrievalStrategy \<Rightarrow> pyval" where
  "limit_of st = (case limit (rs_parameters st) of None \<Rightarrow> PyInt 10 | Some v \<Rightarrow> v)"

definition post_process_results :: "result list \<Rightarrow> RetrievalStrategy \<Rightarrow> exn + result list" where
  "post_process_results rs st =
     (let unique_results = sort_by_score (unique_from {} rs) in
      case filter_threshold (threshold_of st) unique_results of
        Inl e \<Rightarrow> Inl e
      | Inr filtered_results \<Rightarrow> slice_to (limit_of st) filtered_results)"




subsection \<open>The \<^verbatim>\<open>search\<close> operation\<close>

text \<open>
  The response mapping, without its wall-clock fields (\<^verbatim>\<open>duration_seconds\<close>, \<^verbatim>\<open>timestamp\<close>).
\<close>

datatype response_metadata =
    Completed nat ustr ustr ustr ustr
      \<comment> \<open>total_results, query, rewritten_query, strategy_used, data_source\<close>
  | Failed ustr exn  \<comment> \<open>query, error_message\<close>

record response =
  success :: bool
  results :: "result list"
  r_metadata :: response_metadata
  error :: "(ustr \<times> exn) option"  \<comment> \<open>code, message\<close>

text \<open>
  Step 3 of \<^verbatim>\<open>search\<close>: the fallback, taken when the primary results are empty and the
  strategy has a fallback. \<^verbatim>\<open>SearchStrategy(value)\<close> raises ValueError on an unknown value.
\<close>

definition fallback_record :: "RetrievalStrategy \<Rightarrow> fallback \<Rightarrow> SearchStrategy \<Rightarrow> RetrievalStrategy"
  where
  "fallback_record st fb ft =
     \<lparr>strategy_type = ft, data_source = fb_data_source fb, query = query st,
      original_query = original_query st, rs_filters = rs_filters st,
      rs_parameters = rs_parameters st, fallback_strategy = None\<rparr>"

definition run_fallback ::
  "(nat \<Rightarrow> event \<Rightarrow> exn option) \<Rightarrow> agent \<Rightarrow> RetrievalStrategy \<Rightarrow> result list \<Rightarrow>
     (exn + result list) \<times> effect list" where
  "run_fallback hb ag st rs =
     (case fallback_strategy st of
        None \<Rightarrow> (Inr rs, [])
      | Some fb \<Rightarrow>
          if rs = [] then
            (let t = Logged (FallbackActivated fb) #
                     emit_if_enabled hb ag (FallbackStrategyActivated fb) in
             case strategy_of_value (fb_strategy_type fb) of
               None \<Rightarrow> (Inl (ValueError (fb_strategy_type fb)), t)
             | Some ft \<Rightarrow>
                 (let (rs', t') = execute_search_strategy hb ag (fallback_record st fb ft) in
                  (Inr rs', t @ t')))
          else (Inr rs, []))"

text \<open>The body of the \<^verbatim>\<open>try\<close>: the response, or the exception that leaves it.\<close>

definition search_try ::
  "(nat \<Rightarrow> event \<Rightarrow> exn option) \<Rightarrow> agent \<Rightarrow> ustr \<Rightarrow> search_context \<Rightarrow>
     (exn + response) \<times> effect list" where
  "search_try hb ag q ctx =
     (let t0 = emit_if_enabled hb ag (RetrievalStarted q ctx);
          strategy = think_retrieval_strategy q ctx;
          t1 = emit_if_enabled hb ag
                 (RetrievalStrategyCompleted (strategy_value (strategy_type strategy))
                    (data_source strategy) (query strategy));
          (rs, t2) = execute_search_strategy hb ag strategy;
          (fb, t3) = run_fallback hb ag strategy rs in
      case fb of
        Inl e \<Rightarrow> (Inl e, t0 @ t1 @ t2 @ t3)
      | Inr rs' \<Rightarrow>
          (case post_process_results rs' strategy of
             Inl e \<Rightarrow> (Inl e, t0 @ t1 @ t2 @ t3)
           | Inr processed_results \<Rightarrow>
               (Inr \<lparr>success = True, results = processed_results,
                     r_metadata =
                       Completed (length processed_results) q (query strategy)
                         (strategy_value (strategy_type strategy)) (data_source strategy),
                     error = None\<rparr>,
                t0 @ t1 @ t2 @ t3 @
                emit_if_enabled hb ag
                  (RetrievalCompleted (length processed_results)
                     (strategy_value (strategy_type strategy))))))"

definition failure_response :: "ustr \<Rightarrow> exn \<Rightarrow> response" where
  "failure_response q e =
     \<lparr>success = False, results = [], r_metadata = Failed q e,
      error = Some (ascii ''RETRIEVAL_FAILED'', e)\<rparr>"

definition search ::
  "(nat \<Rightarrow> event \<Rightarrow> exn option) \<Rightarrow> agent \<Rightarrow> ustr \<Rightarrow> search_context option \<Rightarrow>
     response \<times> effect list" where
  "search hb ag q context_arg =
     (let ctx = (case context_arg of None \<Rightarrow> empty_context | Some c \<Rightarrow> c) in
      case search_try hb ag q ctx of
        (Inr resp, t) \<Rightarrow> (resp, t)
      | (Inl e, t) \<Rightarrow>
          (failure_response q e,
           t @ Logged (RetrievalFailed e) # emit_if_enabled hb ag (RetrievalError e q)))"


fun dispatches :: "effect list \<Rightarrow> RetrievalStrategy list" where
  "dispatches [] = []"
| "dispatches (Dispatched st # t) = st # dispatches t"
| "dispatches (x # t) = dispatches t"

fun backend_calls :: "effect list \<Rightarrow> effect list" where
  "backend_calls [] = []"
| "backend_calls (ZillizCalled r # t) = ZillizCalled r # backend_calls t"
| "backend_calls (OpenSearchCalled r # t) = OpenSearchCalled r # backend_calls t"
| "backend_calls (WebCalled r # t) = WebCalled r # backend_calls t"
| "backend_calls (x # t) = backend_calls t"


text \<open>
  More inputs for the examples: an agent whose vector store is not configured, whose keyword
  index answers every request with one hit and whose web search is down, with one handler
  registered; and a handler behaviour that raises on every event.
\<close>

abbreviation example_hit :: os_hit where
  "example_hit \<equiv>
     \<lparr>h_source = Some \<lparr>s_content = Some (ascii ''GPU instance types''), s_other = []\<rparr>,
      h_score = Some 0.8, h_id = Some (PyStr (ascii ''doc-1''))\<rparr>"

abbreviation example_agent :: "bool \<Rightarrow> agent" where
  "example_agent ev \<equiv>
     \<lparr>name = ascii ''Retriever Agent'', enable_events = ev,
      agent_tools =
        \<lparr>zilliz_client = None,
         opensearch_client = Some (\<lambda>r. Inr (Some [example_hit])),
         web_search_tools = (\<lambda>r. Inl (Raised (ascii ''offline'')))\<rparr>,
      event_handlers = [0]\<rparr>"





subsection \<open>Strings and the selector: basic facts\<close>

lemma sublist_single: "sublist [c] q \<longleftrightarrow> c \<in> set q"
  by (induction q) (auto simp: sublist_Cons_right)



lemma select_chain:
  "select_search_strategy q ctx =
     (if (\<exists>k\<in>set recency_keywords. sublist k (lower q)) then WEB
      else if doc_type ctx = Some (PyStr (ascii ''pdf'')) \<or> sublist document_marker q then VECTOR
      else if 34 \<in> set q \<or> 96 \<in> set q then KEYWORD
      else HYBRID)"
proof -
  have a: "ascii [CHR 0x22] = [34]" "ascii ''`'' = [96]" by (simp_all add: ascii_def)
  have b: "(case doc_type ctx of None \<Rightarrow> PyStr (ascii ''auto'') | Some v \<Rightarrow> v) = PyStr (ascii ''pdf'')
        \<longleftrightarrow> doc_type ctx = Some (PyStr (ascii ''pdf''))"
    by (cases "doc_type ctx") (simp_all add: ascii_def)
  show ?thesis
    unfolding select_search_strategy_def Let_def b a sublist_single list_ex_iff by simp
qed

lemma select_not_crm: "select_search_strategy q ctx \<in> {WEB, VECTOR, KEYWORD, HYBRID}"
  unfolding select_chain by simp

lemma think_fields:
  "strategy_type (think_retrieval_strategy q ctx) =
     select_search_strategy (rewrite_query_if_needed q ctx) ctx"
  "query (think_retrieval_strategy q ctx) = rewrite_query_if_needed q ctx"
  "original_query (think_retrieval_strategy q ctx) = q"
  "data_source (think_retrieval_strategy q ctx) =
     get_data_source_for_strategy (select_search_strategy (rewrite_query_if_needed q ctx) ctx)"
  "fallback_strategy (think_retrieval_strategy q ctx) =
     get_fallback_strategy (select_search_strategy (rewrite_query_if_needed q ctx) ctx)"
  "rs_filters (think_retrieval_strategy q ctx) =
     (case c_filters ctx of None \<Rightarrow> no_filters | Some f \<Rightarrow> f)"
  "rs_parameters (think_retrieval_strategy q ctx) =
     build_search_parameters (rewrite_query_if_needed q ctx) ctx
       (select_search_strategy (rewrite_query_if_needed q ctx) ctx)"
  by (simp_all add: think_retrieval_strategy_def Let_def)

lemma split_from_tokens:
  "(\<forall>c\<in>set cur. \<not> isspace c) \<Longrightarrow> t \<in> set (split_from cur q) \<Longrightarrow>
     t \<noteq> [] \<and> (\<forall>c\<in>set t. \<not> isspace c)"
proof (induction cur q rule: split_from.induct)
  case (1 cur)
  from "1.prems"(2) have "cur \<noteq> [] \<and> t = cur" by (cases "cur = []") simp_all
  with "1.prems"(1) show ?case by blast
next
  case (2 cur c cs)
  have e: "\<forall>c\<in>set ([]::nat list). \<not> isspace c" by simp
  show ?case
  proof (cases "isspace c")
    case sp: True
    show ?thesis
    proof (cases "cur = []")
      case True
      from "2.prems"(2) sp True have "t \<in> set (split_from [] cs)" by simp
      from "2.IH"(1)[OF sp True e this] show ?thesis .
    next
      case False
      from "2.prems"(2) sp False have "t = cur \<or> t \<in> set (split_from [] cs)" by simp
      then show ?thesis
      proof
        assume "t = cur"
        with False "2.prems"(1) show ?thesis by blast
      next
        assume "t \<in> set (split_from [] cs)"
        from "2.IH"(2)[OF sp False e this] show ?thesis .
      qed
    qed
  next
    case False
    from "2.prems"(2) False have m: "t \<in> set (split_from (cur @ [c]) cs)" by simp
    from "2.prems"(1) False have "\<forall>x\<in>set (cur @ [c]). \<not> isspace x" by simp
    from "2.IH"(3)[OF False this m] show ?thesis .
  qed
qed

lemma split_from_concat:
  "concat (split_from cur q) = cur @ filter (\<lambda>c. \<not> isspace c) q"
  by (induction cur q rule: split_from.induct) auto

text \<open>
  The tokens of \<^term>\<open>split q\<close> are the non-empty runs of non-whitespace code points: none
  is empty, none holds a whitespace code point, and together they are the query without
  its whitespace.
\<close>

lemma split_tokens:
  "t \<in> set (split q) \<Longrightarrow> t \<noteq> [] \<and> (\<forall>c\<in>set t. \<not> isspace c)"
  "concat (split q) = filter (\<lambda>c. \<not> isspace c) q"
  using split_from_tokens[of "[]" t q] split_from_concat[of "[]" q] by (simp_all add: split_def)

lemma strategy_of_value_value: "strategy_of_value (strategy_value s) = Some s"
  by (cases s) (simp_all add: strategy_of_value_def ascii_def)

subsection \<open>Claims on strategy selection\<close>





text \<open>
  C7. The data source of a strategy tag is given by a fixed table: \<open>vector\<close> and \<open>hybrid\<close>
  go to \<open>zilliz_cloud\<close>, \<open>keyword\<close> to \<open>opensearch\<close>, \<open>web\<close> to \<open>duckduckgo\<close>, \<open>crm\<close> to
  \<open>crm_api\<close>. The fallback is given by a second table: \<open>vector\<close> and \<open>hybrid\<close> fall back to
  \<open>keyword\<close>, \<open>keyword\<close> to \<open>web\<close>, and \<open>web\<close> and \<open>crm\<close> have none. A fallback entry holds the
  fallback's tag and the data source of that tag by the first table. The record that
  \<^verbatim>\<open>think_retrieval_strategy\<close> returns carries both for its strategy tag.
\<close>

theorem strategy_tables:
  "get_data_source_for_strategy VECTOR = ascii ''zilliz_cloud''
   \<and> get_data_source_for_strategy KEYWORD = ascii ''opensearch''
   \<and> get_data_source_for_strategy HYBRID = ascii ''zilliz_cloud''
   \<and> get_data_source_for_strategy WEB = ascii ''duckduckgo''
   \<and> get_data_source_for_strategy CRM = ascii ''crm_api''
   \<and> get_fallback_strategy VECTOR =
       Some \<lparr>fb_strategy_type = strategy_value KEYWORD,
             fb_data_source = get_data_source_for_strategy KEYWORD\<rparr>
   \<and> get_fallback_strategy KEYWORD =
       Some \<lparr>fb_strategy_type = strategy_value WEB,
             fb_data_source = get_data_source_for_strategy WEB\<rparr>
   \<and> get_fallback_strategy HYBRID =
       Some \<lparr>fb_strategy_type = strategy_value KEYWORD,
             fb_data_source = get_data_source_for_strategy KEYWORD\<rparr>
   \<and> get_fallback_strategy WEB = None
   \<and> get_fallback_strategy CRM = None
   \<and> data_source (think_retrieval_strategy q ctx) =
       get_data_source_for_strategy (strategy_type (think_retrieval_strategy q ctx))
   \<and> fallback_strategy (think_retrieval_strategy q ctx) =
       get_fallback_strategy (strategy_type (think_retrieval_strategy q ctx))"
  by (simp add: think_fields get_data_source_for_strategy_def get_fallback_strategy_def)

subsection \<open>Post-processing: basic facts\<close>


lemma unique_from_subset: "set (unique_from seen rs) \<subseteq> set rs"
  by (induction rs arbitrary: seen) (auto simp: Let_def)




lemma unique_from_keys: "dedup_key ` set (unique_from seen rs) = dedup_key ` set rs - seen"
  by (induction rs arbitrary: seen) (auto simp: Let_def)






















subsection \<open>Claims on post-processing\<close>







subsection \<open>Traces and the orchestrator: basic facts\<close>


lemma dispatches_append: "dispatches (t @ u) = dispatches t @ dispatches u"
  by (induction t rule: dispatches.induct) simp_all

lemma backend_calls_append: "backend_calls (t @ u) = backend_calls t @ backend_calls u"
  by (induction t rule: backend_calls.induct) simp_all


lemma dispatches_notify: "dispatches (notify hb ev hs) = []"
  by (induction hs) (simp_all split: option.split)

lemma backend_calls_notify: "backend_calls (notify hb ev hs) = []"
  by (induction hs) (simp_all split: option.split)

lemma dispatches_emit: "dispatches (emit_if_enabled hb ag d) = []"
  by (simp add: emit_if_enabled_def emit_event_def dispatches_notify)


lemma dispatches_zilliz: "dispatches (snd (zilliz_search t q f p)) = []"
  by (simp add: zilliz_search_def Let_def split: option.split sum.split)

lemma dispatches_opensearch: "dispatches (snd (opensearch_search t q f p)) = []"
  by (simp add: opensearch_search_def Let_def split: option.split sum.split)

lemma dispatches_web: "dispatches (snd (web_search t q p)) = []"
  by (simp add: web_search_def Let_def split: option.split sum.split web_reply.split)

lemma dispatches_execute: "dispatches (snd (execute_search_strategy hb ag st)) = [st]"
  by (simp add: execute_search_strategy_def Let_def split_beta dispatches_append dispatches_emit
        dispatches_zilliz dispatches_opensearch dispatches_web)











lemma get_fallback_some:
  "get_fallback_strategy s = Some fb \<Longrightarrow>
     \<exists>ft. (ft = KEYWORD \<or> ft = WEB) \<and>
          fb = \<lparr>fb_strategy_type = strategy_value ft,
                fb_data_source = get_data_source_for_strategy ft\<rparr>"
  by (cases s) (auto simp: get_fallback_strategy_def)

lemma fallback_record_update:
  "fallback_record st fb ft =
     st\<lparr>strategy_type := ft, data_source := fb_data_source fb, fallback_strategy := None\<rparr>"
  by (cases st) (simp add: fallback_record_def)

lemma run_fallback_taken:
  assumes "fallback_strategy st = Some fb" and "fb_strategy_type fb = strategy_value ft"
  shows "run_fallback hb ag st [] =
     (Inr (fst (execute_search_strategy hb ag
                 (st\<lparr>strategy_type := ft, data_source := fb_data_source fb,
                     fallback_strategy := None\<rparr>))),
      Logged (FallbackActivated fb) # emit_if_enabled hb ag (FallbackStrategyActivated fb) @
      snd (execute_search_strategy hb ag
             (st\<lparr>strategy_type := ft, data_source := fb_data_source fb,
                 fallback_strategy := None\<rparr>)))"
  using assms
  by (simp add: run_fallback_def Let_def split_beta strategy_of_value_value
        fallback_record_update)

lemma run_fallback_skipped:
  "rs \<noteq> [] \<or> fallback_strategy st = None \<Longrightarrow> run_fallback hb ag st rs = (Inr rs, [])"
  by (auto simp: run_fallback_def split: option.split)

text \<open>The response for the outcome of post-processing.\<close>

lemma search_after_fallback:
  assumes "run_fallback hb ag (think_retrieval_strategy q ctx)
             (fst (execute_search_strategy hb ag (think_retrieval_strategy q ctx))) = (Inr rs, t3)"
  shows "results (fst (search hb ag q (Some ctx))) =
           (case post_process_results rs (think_retrieval_strategy q ctx) of
              Inl e \<Rightarrow> [] | Inr out \<Rightarrow> out)"
    and "dispatches (snd (search hb ag q (Some ctx))) =
           think_retrieval_strategy q ctx # dispatches t3"
  using assms
  by (simp_all add: search_def search_try_def Let_def split_beta failure_response_def
        dispatches_append dispatches_emit dispatches_execute split: sum.split)




lemma example_execute_web:
  "data_source st = ascii ''duckduckgo'' \<Longrightarrow>
   fst (execute_search_strategy hb (example_agent ev) st) = []"
  by (simp add: execute_search_strategy_def split_beta web_search_def Let_def ascii_def)










subsection \<open>Claims on the orchestrator, the dispatchers and the events\<close>




text \<open>
  C10. The strategy tag that \<^verbatim>\<open>think_retrieval_strategy\<close> returns is one of \<open>vector\<close>,
  \<open>keyword\<close>, \<open>hybrid\<close>, \<open>web\<close>, never \<open>crm\<close>, and its data source is never the \<open>crm\<close> one;
  no strategy that \<^verbatim>\<open>search\<close> dispatches, primary or fallback, has the \<open>crm\<close> tag or the
  \<open>crm\<close> data source.
\<close>

theorem selector_never_crm:
  "strategy_type (think_retrieval_strategy q ctx) \<in> {VECTOR, KEYWORD, HYBRID, WEB}
   \<and> strategy_type (think_retrieval_strategy q ctx) \<noteq> CRM
   \<and> data_source (think_retrieval_strategy q ctx) \<noteq> get_data_source_for_strategy CRM
   \<and> CRM \<notin> strategy_type ` set (dispatches (snd (search hb ag q (Some ctx))))
   \<and> get_data_source_for_strategy CRM
       \<notin> data_source ` set (dispatches (snd (search hb ag q (Some ctx))))"
proof -
  let ?st = "think_retrieval_strategy q ctx"
  let ?primary = "fst (execute_search_strategy hb ag ?st)"
  have t: "strategy_type ?st \<in> {VECTOR, KEYWORD, HYBRID, WEB}"
    using select_not_crm[of "rewrite_query_if_needed q ctx" ctx] by (auto simp: think_fields)
  then have n: "strategy_type ?st \<noteq> CRM" by auto
  from t have ds: "data_source ?st \<noteq> get_data_source_for_strategy CRM"
    by (auto simp: think_fields(4) think_fields(1)[symmetric] get_data_source_for_strategy_def ascii_def)
  have "\<forall>s\<in>set (dispatches (snd (search hb ag q (Some ctx)))).
          strategy_type s \<noteq> CRM \<and> data_source s \<noteq> get_data_source_for_strategy CRM"
  proof (cases "?primary = [] \<and> fallback_strategy ?st \<noteq> None")
    case True
    then obtain fb where f: "fallback_strategy ?st = Some fb" and p: "?primary = []" by auto
    from f have "get_fallback_strategy (strategy_type ?st) = Some fb" by (simp add: think_fields)
    from get_fallback_some[OF this] obtain ft where ft: "ft = KEYWORD \<or> ft = WEB" and
      fb: "fb = \<lparr>fb_strategy_type = strategy_value ft,
                 fb_data_source = get_data_source_for_strategy ft\<rparr>" by blast
    then have v: "fb_strategy_type fb = strategy_value ft" by simp
    from run_fallback_taken[OF f v, of hb ag] p
    obtain rs t3 where r: "run_fallback hb ag ?st ?primary = (Inr rs, t3)"
      and d: "dispatches t3 = [?st\<lparr>strategy_type := ft, data_source := fb_data_source fb,
                     fallback_strategy := None\<rparr>]"
      by (simp add: dispatches_append dispatches_emit dispatches_execute)
    from search_after_fallback(2)[OF r] d ft fb n ds show ?thesis
      by (auto simp: get_data_source_for_strategy_def ascii_def)
  next
    case False
    then have "?primary \<noteq> [] \<or> fallback_strategy ?st = None" by auto
    from search_after_fallback(2)[OF run_fallback_skipped[OF this]] n ds show ?thesis by simp
  qed
  then have "CRM \<notin> strategy_type ` set (dispatches (snd (search hb ag q (Some ctx))))"
    and "get_data_source_for_strategy CRM
       \<notin> data_source ` set (dispatches (snd (search hb ag q (Some ctx))))"
    by force+
  with t n ds show ?thesis by (intro conjI)
qed






end
